theory Spec2Isabelle
  imports Complex_Main
begin

section \<open>Data model of the attendance capture page\<close>

text \<open>
  The page \<^verbatim>\<open>src/pages/AttendanceCapture.tsx\<close> keeps its data in React state and in
  the \<^verbatim>\<open>attendance\<close> table of the database. Both are made explicit here: every
  operation of the page takes a world and returns the world it leaves behind.

  Timestamps are milliseconds since the epoch, in UTC. A face descriptor (a
  \<^verbatim>\<open>Float32Array\<close> of the face-api.js library) is opaque to the page, so its type is
  a parameter \<open>'d\<close>.
\<close>

datatype status = Present | Absent

text \<open>\<^verbatim>\<open>interface Student\<close>; the fields carry the prefix \<open>s_\<close>.\<close>

record Student =
  s_id :: string
  s_name :: string
  s_student_id :: string
  s_course :: string
  s_photo_url :: string

text \<open>
  A row of the table \<^verbatim>\<open>attendance\<close> (fields prefixed \<open>a_\<close>). The generated primary
  key and the joined student columns are left out: no operation below reads them.
\<close>

record AttendanceRow =
  a_student_id :: string
  a_course :: string
  a_status :: status
  created_at :: nat

text \<open>\<^verbatim>\<open>new faceapi.LabeledFaceDescriptors(label, descriptors)\<close>\<close>

record 'd LabeledFaceDescriptors =
  label :: string
  descriptors :: "'d list"

text \<open>\<^verbatim>\<open>new faceapi.FaceMatcher(validDescriptors, 0.6)\<close>\<close>

record 'd FaceMatcher =
  labeledDescriptors :: "'d LabeledFaceDescriptors list"
  distanceThreshold :: real

text \<open>
  The callback given to \<^verbatim>\<open>window.setInterval\<close> is created once, inside one call of
  \<^verbatim>\<open>startFaceRecognition\<close>. The identifiers it mentions are the \<^verbatim>\<open>const\<close> bindings
  of the render in which that \<^verbatim>\<open>startFaceRecognition\<close> was created:
  \<^verbatim>\<open>recognizedStudents\<close>, \<^verbatim>\<open>course\<close>, \<^verbatim>\<open>students\<close>, and the local
  \<^verbatim>\<open>faceMatcher\<close>. A later \<^verbatim>\<open>setRecognizedStudents\<close> makes React render again with a
  new array in a new binding; it neither mutates the captured array nor replaces the
  registered callback. The record below is what the callback has captured.
\<close>

record 'd Closure =
  cl_recognizedStudents :: "string list"
  cl_course :: string
  cl_students :: "Student list"
  cl_faceMatcher :: "'d FaceMatcher"

text \<open>
  The world: the component's \<^verbatim>\<open>useState\<close> cells and refs, the \<^verbatim>\<open>attendance\<close>
  table, the browser console, and whether the persistence service answers
  (\<open>outage = None\<close>) or fails every call with a message.
  \<open>intervalRef\<close> holds the registered callback of the running timer.
\<close>

record 'd World =
  course :: string
  students :: "Student list"
  recognizedStudents :: "string list"
  attendanceRecords :: "AttendanceRow list"
  isWebcamActive :: bool
  isModelLoading :: bool
  isModelLoaded :: bool
  isCapturing :: bool
  isSubmitting :: bool
  error :: "string option"
  successMessage :: "string option"
  videoRef :: bool
  canvasRef :: bool
  intervalRef :: "'d Closure option"
  attendance :: "AttendanceRow list"
  outage :: "string option"
  console :: "string list"

section \<open>Persistence boundary\<close>

text \<open>
  \<^verbatim>\<open>new Date().toISOString().split('T')[0]\<close>: the current UTC date, here the number of
  the day. The two bounds of the query are \<^verbatim>\<open>`${today}T00:00:00`\<close> and
  \<^verbatim>\<open>`${today}T23:59:59`\<close>, both inclusive; \<open>createdToday\<close> is the test the query
  applies to \<^verbatim>\<open>created_at\<close>. A row stamped in the last second of the day after
  23:59:59.000 is outside these bounds.
\<close>

definition today :: "nat \<Rightarrow> nat" where
  "today now = now div 86400000"

definition createdToday :: "nat \<Rightarrow> AttendanceRow \<Rightarrow> bool" where
  "createdToday now r =
     (today now * 86400000 \<le> created_at r \<and> created_at r \<le> today now * 86400000 + 86399000)"

text \<open>
  \<^verbatim>\<open>supabase.from('attendance').select(...).eq('course', courseName).gte(...).lte(...)
  .order('created_at', { ascending: false })\<close>
\<close>

definition queryAttendance :: "string \<Rightarrow> nat \<Rightarrow> 'd World \<Rightarrow> string + AttendanceRow list" where
  "queryAttendance courseName now w =
     (case outage w of
        Some msg \<Rightarrow> Inl msg
      | None \<Rightarrow>
          Inr (rev (sort_key created_at
                 (filter (\<lambda>r. a_course r = courseName \<and> createdToday now r) (attendance w)))))"

text \<open>
  \<^verbatim>\<open>supabase.from('attendance').insert(rows)\<close>: resolves to \<^verbatim>\<open>{ error }\<close>; the column
  \<^verbatim>\<open>created_at\<close> defaults to the time of the insert.
\<close>

definition insertAttendance ::
  "(string \<times> string \<times> status) list \<Rightarrow> nat \<Rightarrow> 'd World \<Rightarrow> string option \<times> 'd World" where
  "insertAttendance rows now w =
     (case outage w of
        Some msg \<Rightarrow> (Some msg, w)
      | None \<Rightarrow>
          (None, w\<lparr>attendance := attendance w @
             map (\<lambda>(sid, c, st). \<lparr>a_student_id = sid, a_course = c, a_status = st, created_at = now\<rparr>) rows\<rparr>))"

section \<open>Operations of the page\<close>

text \<open>\<^verbatim>\<open>fetchAttendanceRecords\<close> (lines 101 to 128)\<close>

definition fetchAttendanceRecords :: "string \<Rightarrow> nat \<Rightarrow> 'd World \<Rightarrow> 'd World" where
  "fetchAttendanceRecords courseName now w =
     (case queryAttendance courseName now w of
        Inl msg \<Rightarrow> w\<lparr>console := console w @ [''Error fetching attendance records: '' @ msg]\<rparr>
      | Inr data \<Rightarrow>
          w\<lparr>attendanceRecords := data,
            recognizedStudents := map a_student_id (filter (\<lambda>record. a_status record = Present) data)\<rparr>)"

text \<open>
  What the page itself takes for present today: the students a successful
  \<^verbatim>\<open>fetchAttendanceRecords\<close> for a course leaves in \<^verbatim>\<open>recognizedStudents\<close>, namely those
  of the rows the query returns (the course, and \<^verbatim>\<open>created_at\<close> within the bounds of the
  query) that have status \<^verbatim>\<open>present\<close>. It is a notion of the code, built on the query's
  own test; the calendar day of the specification is \<open>presentOnDay\<close> further down.
\<close>

definition presentToday :: "string \<Rightarrow> nat \<Rightarrow> AttendanceRow list \<Rightarrow> string set" where
  "presentToday c now rows =
     {a_student_id r |r. r \<in> set rows \<and> a_course r = c \<and> a_status r = Present \<and> createdToday now r}"

text \<open>
  \<^verbatim>\<open>fetchStudentsByCourse\<close> (lines 82 to 99). The table \<^verbatim>\<open>students\<close> is not written by
  this page, so the answer of the query is a parameter.
\<close>

definition fetchStudentsByCourse :: "string + Student list \<Rightarrow> 'd World \<Rightarrow> 'd World" where
  "fetchStudentsByCourse answer w =
     (case answer of
        Inl msg \<Rightarrow> w\<lparr>console := console w @ [''Error fetching students: '' @ msg],
                     error := Some ''Failed to load students for the selected course''\<rparr>
      | Inr data \<Rightarrow> w\<lparr>students := data\<rparr>)"

text \<open>
  Selecting a course: \<^verbatim>\<open>setCourse(e.target.value)\<close> and the effect on \<^verbatim>\<open>[course]\<close>
  (lines 55 to 60).
\<close>

definition selectCourse :: "string \<Rightarrow> string + Student list \<Rightarrow> nat \<Rightarrow> 'd World \<Rightarrow> 'd World" where
  "selectCourse c answer now w =
     (let w1 = w\<lparr>course := c\<rparr>
      in if c \<noteq> [] then fetchAttendanceRecords c now (fetchStudentsByCourse answer w1) else w1)"



text \<open>
  The result of \<^verbatim>\<open>faceapi.fetchImage\<close> followed by \<^verbatim>\<open>faceapi.detectSingleFace\<close> on one
  reference photo.
\<close>

datatype 'd detection = Detected 'd | NoDetection | FetchFailed string

text \<open>
  One element of \<^verbatim>\<open>students.map(async (student) => ...)\<close> (lines 203 to 226): the
  labelled descriptor or \<^verbatim>\<open>null\<close>, and what is written to the console.
\<close>

definition describeStudent ::
  "(string \<Rightarrow> 'd detection) \<Rightarrow> Student \<Rightarrow> 'd LabeledFaceDescriptors option \<times> string list" where
  "describeStudent detect student =
     (case detect (s_photo_url student) of
        Detected d \<Rightarrow> (Some \<lparr>label = s_id student, descriptors = [d]\<rparr>, [])
      | NoDetection \<Rightarrow>
          (None, [''No face detected in the reference image for '' @ s_name student])
      | FetchFailed msg \<Rightarrow>
          (None, [''Error processing reference image for '' @ s_name student @ '': '' @ msg]))"

text \<open>\<^verbatim>\<open>labeledDescriptors.filter(descriptor => descriptor !== null)\<close>\<close>

definition validOnes :: "'a option list \<Rightarrow> 'a list" where
  "validOnes xs = concat (map (\<lambda>x. case x of None \<Rightarrow> [] | Some y \<Rightarrow> [y]) xs)"

text \<open>
  \<^verbatim>\<open>startFaceRecognition\<close> (lines 193 to 307), up to the registration of the timer.
  The registered callback captures the bindings of the world the function was called in.

  The callbacks of \<^verbatim>\<open>students.map\<close> run concurrently under \<^verbatim>\<open>Promise.all\<close>: the array
  of results is in roster order, but each callback writes its console line when its own
  photo has been fetched and examined. \<open>finished\<close> gives, for a photo, the instant at
  which its callback completes; the lines appear in that order (callbacks complete one at
  a time; the stable sort keeps roster order should two instants be given equal).
\<close>

definition startFaceRecognition ::
  "(string \<Rightarrow> 'd detection) \<Rightarrow> (string \<Rightarrow> nat) \<Rightarrow> 'd World \<Rightarrow> 'd World" where
  "startFaceRecognition detect finished w =
     (if \<not> isWebcamActive w \<or> \<not> videoRef w \<or> \<not> canvasRef w \<or> students w = [] then w
      else
        let w1 = w\<lparr>isCapturing := True, error := None\<rparr>;
            labeled = map (\<lambda>student. fst (describeStudent detect student)) (students w);
            logged = concat (map (\<lambda>student. snd (describeStudent detect student))
                               (sort_key (\<lambda>student. finished (s_photo_url student)) (students w)));
            w2 = w1\<lparr>console := console w1 @ logged\<rparr>;
            validDescriptors = validOnes labeled
        in if validDescriptors = [] then
             w2\<lparr>error := Some ''Could not create face descriptors from student photos. Please check the photos.'',
                isCapturing := False\<rparr>
           else
             w2\<lparr>intervalRef := Some \<lparr>cl_recognizedStudents = recognizedStudents w,
                                     cl_course = course w,
                                     cl_students = students w,
                                     cl_faceMatcher = \<lparr>labeledDescriptors = validDescriptors,
                                                       distanceThreshold = 0.6\<rparr>\<rparr>\<rparr>)"

text \<open>
  What the video element and \<^verbatim>\<open>faceapi.detectAllFaces(video)\<close> deliver at one firing of
  the timer.
\<close>

record 'd Frame =
  paused :: bool
  ended :: bool
  videoWidth :: nat
  faces :: "'d list"

text \<open>
  The body of the loop over the detections (lines 271 to 304). \<open>findBestMatch\<close> is the
  method of face-api.js; it returns the label of the match, \<^verbatim>\<open>'unknown'\<close> when there is
  none. The test reads the captured \<^verbatim>\<open>recognizedStudents\<close>. The insert resolves to an
  object whose \<^verbatim>\<open>error\<close> field the callback does not inspect, so a failed insert takes the
  same path as a successful one; \<^verbatim>\<open>fetchAttendanceRecords\<close> is called after it and is
  taken to finish before the next detection is processed. Drawing on the canvas changes
  nothing that is modelled.
\<close>

definition processDetection ::
  "('d FaceMatcher \<Rightarrow> 'd \<Rightarrow> string) \<Rightarrow> 'd Closure \<Rightarrow> nat \<Rightarrow> 'd World \<Rightarrow> 'd \<Rightarrow> 'd World" where
  "processDetection findBestMatch cl now w descriptor =
     (let studentId = findBestMatch (cl_faceMatcher cl) descriptor
      in if studentId \<noteq> ''unknown'' \<and> studentId \<notin> set (cl_recognizedStudents cl) then
           let w1 = w\<lparr>recognizedStudents := recognizedStudents w @ [studentId]\<rparr>;
               w2 = snd (insertAttendance [(studentId, cl_course cl, Present)] now w1)
           in fetchAttendanceRecords (cl_course cl) now w2
         else w)"

text \<open>The test at the head of the callback (lines 243 to 250): is this firing processed?\<close>

definition frameReady :: "'d World \<Rightarrow> 'd Frame \<Rightarrow> bool" where
  "frameReady w frame =
     (videoRef w \<and> canvasRef w \<and> \<not> (paused frame \<or> ended frame \<or> videoWidth frame = 0))"

text \<open>One firing of the timer, run to its end (lines 242 to 306).\<close>

definition tick ::
  "('d FaceMatcher \<Rightarrow> 'd \<Rightarrow> string) \<Rightarrow> 'd Closure \<Rightarrow> 'd World \<Rightarrow> nat \<times> 'd Frame \<Rightarrow> 'd World" where
  "tick findBestMatch cl w firing =
     (if frameReady w (snd firing)
      then foldl (processDetection findBestMatch cl (fst firing)) w (faces (snd firing))
      else w)"

text \<open>Consecutive firings of the same timer: the callback, and so the closure, is the same.\<close>

definition ticks ::
  "('d FaceMatcher \<Rightarrow> 'd \<Rightarrow> string) \<Rightarrow> 'd Closure \<Rightarrow> 'd World \<Rightarrow> (nat \<times> 'd Frame) list \<Rightarrow> 'd World" where
  "ticks findBestMatch cl w firings = foldl (tick findBestMatch cl) w firings"

text \<open>\<^verbatim>\<open>markAbsentStudents\<close> (lines 317 to 357)\<close>

definition markAbsentStudents :: "nat \<Rightarrow> 'd World \<Rightarrow> 'd World" where
  "markAbsentStudents now w =
     (let w1 = w\<lparr>isSubmitting := True, error := None, successMessage := None\<rparr>;
          absentStudentIds =
            map s_id (filter (\<lambda>student. s_id student \<notin> set (recognizedStudents w)) (students w))
      in if absentStudentIds = [] then
           w1\<lparr>successMessage := Some ''All students are present!'', isSubmitting := False\<rparr>
         else
           case insertAttendance (map (\<lambda>studentId. (studentId, course w, Absent)) absentStudentIds) now w1 of
             (Some msg, w2) \<Rightarrow>
               w2\<lparr>console := console w2 @ [''Error marking absent students: '' @ msg],
                  error := Some (''Failed to mark absent students: '' @ msg),
                  isSubmitting := False\<rparr>
           | (None, w2) \<Rightarrow>
               (fetchAttendanceRecords (course w) now w2)
                 \<lparr>successMessage := Some ''Attendance has been completed successfully!'',
                  isSubmitting := False\<rparr>)"

text \<open>
  The browser fires the registered callback once per element of \<open>firings\<close>; with no
  timer registered nothing happens.
\<close>

definition runTimer ::
  "('d FaceMatcher \<Rightarrow> 'd \<Rightarrow> string) \<Rightarrow> 'd World \<Rightarrow> (nat \<times> 'd Frame) list \<Rightarrow> 'd World" where
  "runTimer findBestMatch w firings =
     (case intervalRef w of None \<Rightarrow> w | Some cl \<Rightarrow> ticks findBestMatch cl w firings)"

text \<open>\<^verbatim>\<open>stopFaceRecognition\<close> (lines 309 to 315)\<close>

definition stopFaceRecognition :: "'d World \<Rightarrow> 'd World" where
  "stopFaceRecognition w = w\<lparr>intervalRef := None, isCapturing := False\<rparr>"


text \<open>
  What the component renders for the operator (lines 368 to 553): the error and success
  banners, the buttons chosen by \<^verbatim>\<open>isWebcamActive\<close>, \<^verbatim>\<open>isCapturing\<close>,
  \<^verbatim>\<open>isModelLoading\<close> and \<^verbatim>\<open>isSubmitting\<close>, and the status card computed from
  \<^verbatim>\<open>course\<close>, \<^verbatim>\<open>students\<close>, \<^verbatim>\<open>recognizedStudents\<close> and \<^verbatim>\<open>attendanceRecords\<close>.
  \<^verbatim>\<open>startFaceRecognition\<close> itself returns no value.
\<close>

definition operatorView ::
  "'d World \<Rightarrow> (string option \<times> string option) \<times> (bool \<times> bool \<times> bool \<times> bool) \<times>
     (string \<times> Student list \<times> string list \<times> AttendanceRow list)" where
  "operatorView w =
     ((error w, successMessage w),
      (isWebcamActive w, isCapturing w, isModelLoading w, isSubmitting w),
      (course w, students w, recognizedStudents w, attendanceRecords w))"


section \<open>Timer firings that overlap\<close>

text \<open>
  The callback of \<^verbatim>\<open>setInterval\<close> is an \<^verbatim>\<open>async\<close> function. A firing runs it up to
  \<^verbatim>\<open>await faceapi.detectAllFaces(video)\<close>, where it yields to the event loop; the rest
  runs when the detection resolves. The timer fires again every 1000 ms whether or not an
  earlier call has returned: the callback reads no flag and the timer is not cleared
  while a call is pending. The only test at the head of the callback is \<open>frameReady\<close>.
  The function counts the calls that have started and not yet returned.
\<close>

datatype 'd loop_event = TimerFires "'d Frame" | CallbackReturns

fun inFlight :: "'d World \<Rightarrow> nat \<Rightarrow> 'd loop_event list \<Rightarrow> nat" where
  "inFlight w n [] = n"
| "inFlight w n (TimerFires frame # evs) = inFlight w (if frameReady w frame then Suc n else n) evs"
| "inFlight w n (CallbackReturns # evs) = inFlight w (n - 1) evs"

section \<open>Student registration\<close>

text \<open>
  The registration page (\<^verbatim>\<open>StudentRegistration\<close>, \<^verbatim>\<open>src/unnamed/part_000\<close>): the form
  fields (prefixed \<open>r_\<close>), the objects of the storage bucket \<^verbatim>\<open>images\<close>, the rows of
  the table \<^verbatim>\<open>students\<close>, the arguments of every call of
  \<^verbatim>\<open>supabase.storage.from('images').remove\<close>, the console, and the exception that left
  \<^verbatim>\<open>handleSubmit\<close> uncaught, if any.
\<close>

record 'd StudentRow =
  n_name :: string
  n_student_id :: string
  n_course :: string
  n_photo_url :: string
  n_descriptor :: 'd

record 'd Registration =
  r_name :: string
  r_studentId :: string
  r_course :: string
  r_photo :: "string option"
  r_searchTerm :: string
  r_isModelLoading :: bool
  r_isSaving :: bool
  r_error :: "string option"
  r_successMessage :: "string option"
  r_storage :: "string list"
  r_students :: "'d StudentRow list"
  r_removeCalls :: "string list list"
  r_console :: "string list"
  r_uncaught :: "string option"

text \<open>
  What the outside answers during one submit: the text of \<^verbatim>\<open>Date.now()\<close>, the error
  of the upload if it fails, the prefix \<^verbatim>\<open>getPublicUrl\<close> puts before a path, what
  \<^verbatim>\<open>computeFaceDescriptor\<close> finds in the uploaded photo, and the error of the insert
  into \<^verbatim>\<open>students\<close> if it fails.
\<close>

record 'd SubmitEnv =
  e_dateNow :: string
  e_uploadError :: "string option"
  e_publicPrefix :: string
  e_face :: "'d detection"
  e_insertError :: "string option"

text \<open>\<^verbatim>\<open>name.split('.')\<close>: at least one piece, also for a name without a dot.\<close>

fun splitOn :: "char \<Rightarrow> string \<Rightarrow> string list" where
  "splitOn c [] = [[]]"
| "splitOn c (x # xs) =
     (if x = c then [] # splitOn c xs
      else (case splitOn c xs of [] \<Rightarrow> [[x]] | y # ys \<Rightarrow> (x # y) # ys))"

text \<open>
  \<^verbatim>\<open>computeFaceDescriptor\<close> (lines 150 to 166): the descriptor, or the message of the
  error it logs and throws again.
\<close>

definition computeFaceDescriptor :: "'d detection \<Rightarrow> string + 'd" where
  "computeFaceDescriptor face =
     (case face of
        Detected d \<Rightarrow> Inr d
      | NoDetection \<Rightarrow> Inl ''No face detected in the image''
      | FetchFailed msg \<Rightarrow> Inl msg)"

text \<open>
  The \<^verbatim>\<open>try\<close> block of \<^verbatim>\<open>handleSubmit\<close> (lines 183 to 227), after
  \<^verbatim>\<open>setIsSaving(true)\<close>: \<open>Inl\<close> carries the message of the error thrown and the state
  at the throw, \<open>Inr\<close> the state at the end of the block.
\<close>

definition submitTry :: "'d SubmitEnv \<Rightarrow> string \<Rightarrow> 'd Registration \<Rightarrow> (string \<times> 'd Registration) + 'd Registration" where
  "submitTry env photoName r =
     (let fileExt = last (splitOn CHR ''.'' photoName);
          fileName = e_dateNow env @ ''.'' @ fileExt;
          filePath = ''students/'' @ fileName
      in case e_uploadError env of
           Some uploadError \<Rightarrow> Inl (uploadError, r)
         | None \<Rightarrow>
             let r1 = r\<lparr>r_storage := r_storage r @ [filePath]\<rparr>;
                 publicUrl = e_publicPrefix env @ filePath
             in case computeFaceDescriptor (e_face env) of
                  Inl msg \<Rightarrow>
                    Inl (msg, r1\<lparr>r_console := r_console r1 @ [''Error computing face descriptor: '' @ msg]\<rparr>)
                | Inr descriptor \<Rightarrow>
                    (case e_insertError env of
                       Some insertError \<Rightarrow> Inl (insertError, r1)
                     | None \<Rightarrow>
                         Inr (r1\<lparr>r_students := r_students r1 @
                                   [\<lparr>n_name = r_name r, n_student_id = r_studentId r,
                                     n_course = r_course r, n_photo_url = publicUrl,
                                     n_descriptor = descriptor\<rparr>],
                                 r_successMessage := Some ''Student registered successfully!'',
                                 r_name := [], r_studentId := [], r_course := [],
                                 r_photo := None, r_error := None\<rparr>)))"

text \<open>
  The string-valued identifiers in scope inside the \<^verbatim>\<open>catch\<close> block (lines 228 to 238):
  the component's \<^verbatim>\<open>name\<close>, \<^verbatim>\<open>studentId\<close>, \<^verbatim>\<open>course\<close> and \<^verbatim>\<open>searchTerm\<close>. The other
  identifiers in scope there hold values that are not strings: the caught \<^verbatim>\<open>error\<close>, the
  event \<^verbatim>\<open>e\<close>, the remaining state cells (\<^verbatim>\<open>students\<close>, \<^verbatim>\<open>loading\<close>, \<^verbatim>\<open>photo\<close>,
  \<^verbatim>\<open>photoPreview\<close>, \<^verbatim>\<open>isUsingWebcam\<close>, \<^verbatim>\<open>isSaving\<close>, \<^verbatim>\<open>successMessage\<close>,
  \<^verbatim>\<open>isModelLoading\<close>) with their setters, the three refs, the functions of the component
  and the imports. \<^verbatim>\<open>fileExt\<close>, \<^verbatim>\<open>fileName\<close> and \<^verbatim>\<open>filePath\<close> are declared with
  \<^verbatim>\<open>const\<close> inside the \<^verbatim>\<open>try\<close> block (lines 187 to 189), so their scope ends with
  that block; no enclosing scope declares a \<^verbatim>\<open>filePath\<close>.
\<close>

definition catchScope :: "'d Registration \<Rightarrow> (string \<times> string) list" where
  "catchScope r =
     [(''name'', r_name r), (''studentId'', r_studentId r), (''course'', r_course r),
      (''searchTerm'', r_searchTerm r)]"

text \<open>
  The \<^verbatim>\<open>catch\<close> block: it logs, sets the error banner, then evaluates \<^verbatim>\<open>filePath\<close>.
  An identifier that no scope binds throws a \<^verbatim>\<open>ReferenceError\<close>, which leaves
  \<^verbatim>\<open>handleSubmit\<close>; otherwise a non-empty path is removed from the bucket.
\<close>

definition submitCatch :: "string \<Rightarrow> 'd Registration \<Rightarrow> 'd Registration" where
  "submitCatch msg r =
     (let r1 = r\<lparr>r_console := r_console r @ [''Error registering student: '' @ msg],
                 r_error := Some (''Failed to register student: '' @ msg)\<rparr>
      in case map_of (catchScope r1) ''filePath'' of
           None \<Rightarrow> r1\<lparr>r_uncaught := Some ''ReferenceError: filePath is not defined''\<rparr>
         | Some filePath \<Rightarrow>
             if filePath \<noteq> [] then
               r1\<lparr>r_storage := filter (\<lambda>p. p \<noteq> filePath) (r_storage r1),
                  r_removeCalls := r_removeCalls r1 @ [[filePath]]\<rparr>
             else r1)"

text \<open>\<^verbatim>\<open>handleSubmit\<close> (lines 168 to 241); the \<^verbatim>\<open>finally\<close> block runs on every path through \<^verbatim>\<open>try\<close>.\<close>

definition handleSubmit :: "'d SubmitEnv \<Rightarrow> 'd Registration \<Rightarrow> 'd Registration" where
  "handleSubmit env r =
     (let r0 = r\<lparr>r_error := None, r_successMessage := None\<rparr>
      in case r_photo r of
           None \<Rightarrow> r0\<lparr>r_error := Some ''All fields are required, including student photo''\<rparr>
         | Some photoName \<Rightarrow>
             if r_name r = [] \<or> r_studentId r = [] \<or> r_course r = [] then
               r0\<lparr>r_error := Some ''All fields are required, including student photo''\<rparr>
             else if r_isModelLoading r then
               r0\<lparr>r_error := Some ''Please wait for facial recognition models to load''\<rparr>
             else
               (case submitTry env photoName (r0\<lparr>r_isSaving := True\<rparr>) of
                  Inr r1 \<Rightarrow> r1\<lparr>r_isSaving := False\<rparr>
                | Inl (msg, r1) \<Rightarrow> (submitCatch msg r1)\<lparr>r_isSaving := False\<rparr>))"

section \<open>The notions of the specification\<close>

text \<open>
  The students with a \<^verbatim>\<open>present\<close> record for a course on the calendar day of \<open>now\<close>
  (the UTC date), in the words of the specification. The day is computed from the
  timestamps alone; the bounds of the page's query play no part in it.
\<close>

definition presentOnDay :: "string \<Rightarrow> nat \<Rightarrow> AttendanceRow list \<Rightarrow> string set" where
  "presentOnDay c now rows =
     {a_student_id r |r. r \<in> set rows \<and> a_course r = c \<and> a_status r = Present
        \<and> created_at r div 86400000 = now div 86400000}"

text \<open>The roster members whose reference photo gives no descriptor: the exclusion list.\<close>

definition excluded :: "(string \<Rightarrow> 'd detection) \<Rightarrow> Student list \<Rightarrow> Student list" where
  "excluded detect roster =
     filter (\<lambda>s. case detect (s_photo_url s) of Detected d \<Rightarrow> False | NoDetection \<Rightarrow> True | FetchFailed msg \<Rightarrow> True) roster"

text \<open>The roster members whose reference photo gives a descriptor.\<close>

definition included :: "(string \<Rightarrow> 'd detection) \<Rightarrow> Student list \<Rightarrow> Student list" where
  "included detect roster =
     filter (\<lambda>s. case detect (s_photo_url s) of Detected d \<Rightarrow> True | NoDetection \<Rightarrow> False | FetchFailed msg \<Rightarrow> False) roster"

section \<open>Concrete classroom used by the evaluated examples\<close>

text \<open>
  Descriptors are natural numbers here. \<open>exactMatch\<close> stands in for
  \<^verbatim>\<open>FaceMatcher.findBestMatch\<close> in the examples only. A label all of whose reference
  descriptors equal the live descriptor is at distance 0 from it, the least distance
  there is; it is accepted when 0 is below the threshold of the matcher, and among several
  such labels the last one of the gallery is returned. Any other live descriptor is
  answered \<^verbatim>\<open>'unknown'\<close>: the examples only show faces that are reference descriptors of
  the gallery in use or belong to nobody in it.
\<close>

definition exactMatch :: "nat FaceMatcher \<Rightarrow> nat \<Rightarrow> string" where
  "exactMatch m d =
     (case filter (\<lambda>l. set (descriptors l) = {d}) (labeledDescriptors m) of
        [] \<Rightarrow> ''unknown''
      | l # ls \<Rightarrow> if 0 < distanceThreshold m then label (last (l # ls)) else ''unknown'')"

definition alice :: Student where
  "alice = \<lparr>s_id = ''a1'', s_name = ''Alice'', s_student_id = ''S001'', s_course = ''CS101'',
            s_photo_url = ''alice.jpg''\<rparr>"

definition bob :: Student where
  "bob = \<lparr>s_id = ''b2'', s_name = ''Bob'', s_student_id = ''S002'', s_course = ''CS101'',
          s_photo_url = ''bob.jpg''\<rparr>"

definition carol :: Student where
  "carol = \<lparr>s_id = ''c3'', s_name = ''Carol'', s_student_id = ''S003'', s_course = ''CS101'',
            s_photo_url = ''carol.jpg''\<rparr>"

text \<open>Every reference photo shows a face: descriptors 11, 22 and 33.\<close>

definition photos :: "string \<Rightarrow> nat detection" where
  "photos url =
     (if url = ''alice.jpg'' then Detected 11
      else if url = ''bob.jpg'' then Detected 22
      else if url = ''carol.jpg'' then Detected 33
      else FetchFailed ''not found'')"

text \<open>The same photos, but no face is found in Bob's.\<close>

definition photosBobFaceless :: "string \<Rightarrow> nat detection" where
  "photosBobFaceless url = (if url = ''bob.jpg'' then NoDetection else photos url)"

text \<open>Only Alice's photo shows a face.\<close>

definition photosOnlyAlice :: "string \<Rightarrow> nat detection" where
  "photosOnlyAlice url = (if url = ''alice.jpg'' then Detected 11 else NoDetection)"


text \<open>
  The instants at which the photo callbacks complete in the examples: Carol's photo is
  done first, then Bob's, then every other one.
\<close>

definition arrival :: "string \<Rightarrow> nat" where
  "arrival url = (if url = ''carol.jpg'' then 10 else if url = ''bob.jpg'' then 20 else 30)"

text \<open>Dan is a student of the other course, CS102; his photo shows a face, descriptor 44.\<close>

definition dan :: Student where
  "dan = \<lparr>s_id = ''d4'', s_name = ''Dan'', s_student_id = ''S004'', s_course = ''CS102'',
          s_photo_url = ''dan.jpg''\<rparr>"

definition danPhoto :: "string \<Rightarrow> nat detection" where
  "danPhoto url = (if url = ''dan.jpg'' then Detected 44 else FetchFailed ''not found'')"

text \<open>
  The page after course \<^verbatim>\<open>CS101\<close> was selected and the camera started: the roster is
  loaded, nobody has been recorded yet, the table is empty.
\<close>

definition classroom :: "Student list \<Rightarrow> nat World" where
  "classroom roster =
     \<lparr>course = ''CS101'', students = roster, recognizedStudents = [], attendanceRecords = [],
      isWebcamActive = True, isModelLoading = False, isModelLoaded = True, isCapturing = False,
      isSubmitting = False, error = None, successMessage = None, videoRef = True,
      canvasRef = True, intervalRef = None, attendance = [], outage = None, console = []\<rparr>"

text \<open>A playing video frame in which exactly the given faces are detected.\<close>

definition frameWith :: "'d list \<Rightarrow> 'd Frame" where
  "frameWith ds = \<lparr>paused = False, ended = False, videoWidth = 640, faces = ds\<rparr>"

text \<open>The classroom of Alice and Bob after \<^verbatim>\<open>Start Face Recognition\<close> was pressed.\<close>

definition startedClassroom :: "nat World" where
  "startedClassroom = startFaceRecognition photos arrival (classroom [alice, bob])"

text \<open>The callback registered by that call, with the bindings it has captured.\<close>

definition startedClosure :: "nat Closure" where
  "startedClosure =
     \<lparr>cl_recognizedStudents = [], cl_course = ''CS101'', cl_students = [alice, bob],
      cl_faceMatcher =
        \<lparr>labeledDescriptors = [\<lparr>label = ''a1'', descriptors = [11]\<rparr>, \<lparr>label = ''b2'', descriptors = [22]\<rparr>],
         distanceThreshold = 0.6\<rparr>\<rparr>"

text \<open>
  Dan was recorded present in CS102 at 500, in an earlier session of the day. The page
  then shows CS101 with Alice and Bob and the camera on.
\<close>

definition danRecorded :: "nat World" where
  "danRecorded =
     (classroom [alice, bob])
       \<lparr>attendance := [\<lparr>a_student_id = ''d4'', a_course = ''CS102'', a_status = Present,
                         created_at = 500\<rparr>]\<rparr>"

text \<open>
  Recognition is started for CS101. At 1000 the operator selects CS102, whose roster is
  Dan.
\<close>

definition courseSwitched :: "nat World" where
  "courseSwitched =
     selectCourse ''CS102'' (Inr [dan]) 1000 (startFaceRecognition photos arrival danRecorded)"

text \<open>The timer started for CS101 keeps running and at 2000 sees Alice.\<close>

definition switchedClassroom :: "nat World" where
  "switchedClassroom = runTimer exactMatch courseSwitched [(2000, frameWith [11])]"

text \<open>The operator then pauses recognition and starts it again, now for CS102.\<close>

definition restartedClassroom :: "nat World" where
  "restartedClassroom = startFaceRecognition danPhoto arrival (stopFaceRecognition switchedClassroom)"

section \<open>Shared lemmas\<close>

lemma fetch_keeps:
  "attendance (fetchAttendanceRecords c now w) = attendance w"
  "outage (fetchAttendanceRecords c now w) = outage w"
  "videoRef (fetchAttendanceRecords c now w) = videoRef w"
  "canvasRef (fetchAttendanceRecords c now w) = canvasRef w"
  "intervalRef (fetchAttendanceRecords c now w) = intervalRef w"
  "students (fetchAttendanceRecords c now w) = students w"
  "course (fetchAttendanceRecords c now w) = course w"
  by (simp_all add: fetchAttendanceRecords_def split: sum.splits)

lemma processDetection_keeps:
  "outage (processDetection f cl now w d) = outage w"
  "videoRef (processDetection f cl now w d) = videoRef w"
  "canvasRef (processDetection f cl now w d) = canvasRef w"
  by (simp_all add: processDetection_def Let_def insertAttendance_def fetch_keeps split: option.splits)

lemma processDetection_attendance:
  "attendance (processDetection f cl now w d) =
     attendance w @
       (if f (cl_faceMatcher cl) d \<noteq> ''unknown'' \<and> f (cl_faceMatcher cl) d \<notin> set (cl_recognizedStudents cl)
           \<and> outage w = None
        then [\<lparr>a_student_id = f (cl_faceMatcher cl) d, a_course = cl_course cl, a_status = Present,
               created_at = now\<rparr>]
        else [])"
  by (simp add: processDetection_def Let_def insertAttendance_def fetch_keeps split: option.splits)

lemma foldl_processDetection_keeps:
  "outage (foldl (processDetection f cl now) w ds) = outage w"
  "videoRef (foldl (processDetection f cl now) w ds) = videoRef w"
  "canvasRef (foldl (processDetection f cl now) w ds) = canvasRef w"
  by (induction ds arbitrary: w) (simp_all add: processDetection_keeps)

lemma tick_keeps:
  "outage (tick f cl w firing) = outage w"
  "videoRef (tick f cl w firing) = videoRef w"
  "canvasRef (tick f cl w firing) = canvasRef w"
  by (simp_all add: tick_def foldl_processDetection_keeps)

lemma tick_single_face:
  assumes "outage w = None" "videoRef w" "canvasRef w" "0 < wd"
    "f (cl_faceMatcher cl) d = s" "s \<noteq> ''unknown''" "s \<notin> set (cl_recognizedStudents cl)"
  shows "attendance (tick f cl w (now, \<lparr>paused = False, ended = False, videoWidth = wd, faces = [d]\<rparr>))
         = attendance w @ [\<lparr>a_student_id = s, a_course = cl_course cl, a_status = Present, created_at = now\<rparr>]"
  using assms by (simp add: tick_def frameReady_def processDetection_attendance)

lemma alice_photo: "photos (s_photo_url alice) = Detected 11"
  by (simp add: photos_def alice_def)

lemma bob_photo: "photos (s_photo_url bob) = Detected 22"
  by (simp add: photos_def bob_def)

lemma carol_photo: "photos (s_photo_url carol) = Detected 33"
  by (simp add: photos_def carol_def)

lemma startedClassroom_eq:
  "startedClassroom = (classroom [alice, bob])\<lparr>isCapturing := True, intervalRef := Some startedClosure\<rparr>"
  by (simp add: startedClassroom_def startFaceRecognition_def classroom_def describeStudent_def
      alice_photo bob_photo validOnes_def startedClosure_def Let_def)
    (simp add: alice_def bob_def)

lemma startedClassroom_fields:
  "intervalRef startedClassroom = Some startedClosure"
  "outage startedClassroom = None"
  "videoRef startedClassroom"
  "canvasRef startedClassroom"
  "attendance startedClassroom = []"
  by (simp_all add: startedClassroom_eq) (simp_all add: classroom_def)

lemma exactMatch_alice: "exactMatch (cl_faceMatcher startedClosure) 11 = ''a1''"
  by (simp add: exactMatch_def startedClosure_def)



lemma markAbsent_attendance:
  "outage w = None \<Longrightarrow>
     attendance (markAbsentStudents now w) =
       attendance w @
       map (\<lambda>s. \<lparr>a_student_id = s_id s, a_course = course w, a_status = Absent, created_at = now\<rparr>)
         (filter (\<lambda>s. s_id s \<notin> set (recognizedStudents w)) (students w))"
  by (simp add: markAbsentStudents_def Let_def insertAttendance_def fetch_keeps comp_def)




lemma danRecorded_started:
  "startFaceRecognition photos arrival danRecorded
     = danRecorded\<lparr>isCapturing := True, intervalRef := Some startedClosure\<rparr>"
  by (simp add: startFaceRecognition_def danRecorded_def classroom_def describeStudent_def
      alice_photo bob_photo validOnes_def startedClosure_def Let_def)
    (simp add: alice_def bob_def)

lemma danSelected_fields:
  "intervalRef courseSwitched
     = Some startedClosure"
  "recognizedStudents courseSwitched
     = [''d4'']"
  "course courseSwitched = ''CS102''"
  "students courseSwitched = [dan]"
  "attendance courseSwitched
     = [\<lparr>a_student_id = ''d4'', a_course = ''CS102'', a_status = Present, created_at = 500\<rparr>]"
  "outage courseSwitched = None"
  "videoRef courseSwitched"
  "canvasRef courseSwitched"
  "isWebcamActive courseSwitched"
  unfolding courseSwitched_def danRecorded_started
  by (simp_all add: selectCourse_def fetchStudentsByCourse_def fetchAttendanceRecords_def
      queryAttendance_def createdToday_def today_def danRecorded_def classroom_def Let_def)

lemma switchedClassroom_fields:
  "course switchedClassroom = ''CS102''"
  "students switchedClassroom = [dan]"
  "recognizedStudents switchedClassroom = [''a1'']"
  "outage switchedClassroom = None"
  "attendance switchedClassroom =
     [\<lparr>a_student_id = ''d4'', a_course = ''CS102'', a_status = Present, created_at = 500\<rparr>,
      \<lparr>a_student_id = ''a1'', a_course = ''CS101'', a_status = Present, created_at = 2000\<rparr>]"
  "isWebcamActive switchedClassroom" "videoRef switchedClassroom" "canvasRef switchedClassroom"
  unfolding switchedClassroom_def runTimer_def danSelected_fields option.case
  by (simp_all add: ticks_def tick_def frameReady_def frameWith_def processDetection_def
      exactMatch_def startedClosure_def insertAttendance_def fetchAttendanceRecords_def
      queryAttendance_def createdToday_def today_def danSelected_fields Let_def)

lemma restartedClassroom_fields:
  "intervalRef restartedClassroom =
     Some \<lparr>cl_recognizedStudents = [''a1''], cl_course = ''CS102'', cl_students = [dan],
           cl_faceMatcher = \<lparr>labeledDescriptors = [\<lparr>label = ''d4'', descriptors = [44]\<rparr>],
                             distanceThreshold = 0.6\<rparr>\<rparr>"
  "attendance restartedClassroom = attendance switchedClassroom"
  "outage restartedClassroom = None"
  "videoRef restartedClassroom" "canvasRef restartedClassroom"
  by (simp_all add: restartedClassroom_def startFaceRecognition_def stopFaceRecognition_def
      switchedClassroom_fields describeStudent_def validOnes_def danPhoto_def dan_def Let_def)

text \<open>
  The page's notion of present today and the calendar day differ at the end of the day:
  Alice's \<^verbatim>\<open>present\<close> row stamped at 23:59:59.500 is of the day of a refresh made at
  23:59:59.900, yet the query leaves it out and the refreshed list is empty.
\<close>

lemma last_second_row_is_not_refreshed:
  "''a1'' \<in> presentOnDay ''CS101'' 86399900
      [\<lparr>a_student_id = ''a1'', a_course = ''CS101'', a_status = Present, created_at = 86399500\<rparr>]
   \<and> presentToday ''CS101'' 86399900
      [\<lparr>a_student_id = ''a1'', a_course = ''CS101'', a_status = Present, created_at = 86399500\<rparr>] = {}
   \<and> recognizedStudents (fetchAttendanceRecords ''CS101'' 86399900
        ((classroom [alice, bob])\<lparr>attendance :=
           [\<lparr>a_student_id = ''a1'', a_course = ''CS101'', a_status = Present, created_at = 86399500\<rparr>]\<rparr>))
     = []"
  by (simp add: presentOnDay_def presentToday_def createdToday_def today_def
      fetchAttendanceRecords_def queryAttendance_def classroom_def)

section \<open>The recognition loop and the recorded presences\<close>

text \<open>
  Claim C4. The specification says that the same face, detected and matched to the same
  identity in N consecutive firings of the timer of one session, gives exactly one
  recognition event and one insert. The page does otherwise: the callback tests the
  identity against the \<^verbatim>\<open>recognizedStudents\<close> it captured when the session started, which
  no later firing changes. For an identity that was not in that list, every one of the N
  firings inserts a \<^verbatim>\<open>present\<close> row: the table grows by exactly one row per firing.
\<close>

theorem repeated_face_inserts_at_every_firing:
  assumes "outage w = None" and "videoRef w" and "canvasRef w" and "0 < wd"
    and "findBestMatch (cl_faceMatcher cl) d = s" and "s \<noteq> ''unknown''"
    and "s \<notin> set (cl_recognizedStudents cl)"
  shows "attendance (ticks findBestMatch cl w
            (map (\<lambda>now. (now, \<lparr>paused = False, ended = False, videoWidth = wd, faces = [d]\<rparr>)) nows))
         = attendance w @
           map (\<lambda>now. \<lparr>a_student_id = s, a_course = cl_course cl, a_status = Present, created_at = now\<rparr>) nows"
  using assms
proof (induction nows arbitrary: w)
  case Nil
  then show ?case by (simp add: ticks_def)
next
  case (Cons t ts)
  let ?w1 = "tick findBestMatch cl w (t, \<lparr>paused = False, ended = False, videoWidth = wd, faces = [d]\<rparr>)"
  have a: "attendance ?w1 =
      attendance w @ [\<lparr>a_student_id = s, a_course = cl_course cl, a_status = Present, created_at = t\<rparr>]"
    using Cons.prems by (rule tick_single_face)
  have k: "outage ?w1 = None" "videoRef ?w1" "canvasRef ?w1"
    using Cons.prems by (simp_all add: tick_keeps)
  have "attendance (ticks findBestMatch cl ?w1
            (map (\<lambda>now. (now, \<lparr>paused = False, ended = False, videoWidth = wd, faces = [d]\<rparr>)) ts))
       = attendance ?w1 @
         map (\<lambda>now. \<lparr>a_student_id = s, a_course = cl_course cl, a_status = Present, created_at = now\<rparr>) ts"
    using Cons.IH[OF k Cons.prems(4-7)] .
  then show ?case using a by (simp add: ticks_def)
qed

text \<open>
  The started classroom, Alice's face in three consecutive firings: three \<^verbatim>\<open>present\<close>
  rows for Alice.
\<close>

theorem repeated_face_inserts_at_every_firing_witness:
  "intervalRef startedClassroom = Some startedClosure \<and>
   attendance (ticks exactMatch startedClosure startedClassroom
      (map (\<lambda>now. (now, \<lparr>paused = False, ended = False, videoWidth = 640, faces = [11]\<rparr>)) [1000, 2000, 3000]))
   = [\<lparr>a_student_id = ''a1'', a_course = ''CS101'', a_status = Present, created_at = 1000\<rparr>,
      \<lparr>a_student_id = ''a1'', a_course = ''CS101'', a_status = Present, created_at = 2000\<rparr>,
      \<lparr>a_student_id = ''a1'', a_course = ''CS101'', a_status = Present, created_at = 3000\<rparr>]"
proof -
  have h: "(0::nat) < 640" "''a1'' \<noteq> ''unknown''" "''a1'' \<notin> set (cl_recognizedStudents startedClosure)"
    by (simp_all add: startedClosure_def)
  show ?thesis
    using repeated_face_inserts_at_every_firing
      [where w = startedClassroom and wd = 640 and findBestMatch = exactMatch
         and cl = startedClosure and d = 11 and s = "''a1''" and nows = "[1000, 2000, 3000]"]
      h exactMatch_alice
    by (simp add: startedClassroom_fields) (simp add: startedClosure_def)
qed

text \<open>
  Claim C1. The specification says that recording a student present any number of times
  on one day leaves exactly one \<^verbatim>\<open>present\<close> record for that student, course and day.
  In the started classroom Alice is recognised at two firings of the same day; the table
  then holds two \<^verbatim>\<open>present\<close> rows for Alice in CS101 today, and the refreshed
  \<^verbatim>\<open>recognizedStudents\<close> lists her twice.
\<close>

theorem recognised_twice_recorded_twice:
  "length (filter (\<lambda>r. a_student_id r = ''a1'' \<and> a_course r = ''CS101'' \<and> a_status r = Present
                        \<and> createdToday 2000 r)
      (attendance (runTimer exactMatch startedClassroom [(1000, frameWith [11]), (2000, frameWith [11])])))
   = 2 \<and>
   recognizedStudents (runTimer exactMatch startedClassroom [(1000, frameWith [11]), (2000, frameWith [11])])
   = [''a1'', ''a1'']"
  by (simp add: runTimer_def startedClassroom_eq)
    (simp add: ticks_def tick_def frameReady_def frameWith_def processDetection_def exactMatch_def
      insertAttendance_def fetchAttendanceRecords_def queryAttendance_def createdToday_def today_def
      classroom_def startedClosure_def Let_def)

text \<open>
  Claim C10. The specification says that the recognized set always holds the students
  with a \<^verbatim>\<open>present\<close> record for the selected course today, so that a student recorded
  in an earlier session is not inserted again in a later one. The page intends this
  (\<^verbatim>\<open>fetchAttendanceRecords\<close> refills the list from the table) but misses it when the
  course is changed while the timer runs: the callback keeps the course it was started
  with and, after its next insert, refills the list with the students of that course.
  Dan has a \<^verbatim>\<open>present\<close> row of today in CS102. Selecting CS102 puts him in the list; the
  timer started for CS101 then sees Alice and the list becomes Alice alone. After a pause
  and a new start the timer for CS102 sees Dan and inserts a second \<^verbatim>\<open>present\<close> row
  for him.
\<close>

theorem present_student_recorded_again_after_course_switch:
  "recognizedStudents courseSwitched = [''d4'']
   \<and> course switchedClassroom = ''CS102''
   \<and> ''d4'' \<in> presentOnDay ''CS102'' 2000 (attendance switchedClassroom)
   \<and> recognizedStudents switchedClassroom = [''a1'']
   \<and> filter (\<lambda>r. a_student_id r = ''d4'')
        (attendance (runTimer exactMatch restartedClassroom [(4000, frameWith [44])]))
     = [\<lparr>a_student_id = ''d4'', a_course = ''CS102'', a_status = Present, created_at = 500\<rparr>,
        \<lparr>a_student_id = ''d4'', a_course = ''CS102'', a_status = Present, created_at = 4000\<rparr>]"
proof -
  have day: "''d4'' \<in> presentOnDay ''CS102'' 2000 (attendance switchedClassroom)"
    unfolding presentOnDay_def switchedClassroom_fields
    by (rule CollectI,
        rule exI[of _ "\<lparr>a_student_id = ''d4'', a_course = ''CS102'', a_status = Present, created_at = 500\<rparr>"])
      simp
  have again: "attendance (runTimer exactMatch restartedClassroom [(4000, frameWith [44])])
      = attendance switchedClassroom
        @ [\<lparr>a_student_id = ''d4'', a_course = ''CS102'', a_status = Present, created_at = 4000\<rparr>]"
    by (simp add: runTimer_def restartedClassroom_fields ticks_def tick_def frameReady_def
        frameWith_def processDetection_attendance exactMatch_def)
  show ?thesis
    using day again by (simp add: danSelected_fields switchedClassroom_fields)
qed

section \<open>Closing the session\<close>

text \<open>
  Claim C3. The specification says that closing the session inserts an \<^verbatim>\<open>absent\<close>
  record exactly for the roster members with no \<^verbatim>\<open>present\<close> record today, and never for
  a student who has one. The page takes the absentees from \<^verbatim>\<open>recognizedStudents\<close>, which
  it means to hold the students present today, but which the timer of a course selected
  before refills with the students of that course. In the classroom switched to CS102,
  where Dan has a \<^verbatim>\<open>present\<close> row of today and the list holds Alice alone, closing at
  4000 inserts an \<^verbatim>\<open>absent\<close> row for Dan.
\<close>

theorem present_student_marked_absent_after_course_switch:
  "course switchedClassroom = ''CS102''
   \<and> students switchedClassroom = [dan]
   \<and> ''d4'' \<in> presentOnDay ''CS102'' 4000 (attendance switchedClassroom)
   \<and> recognizedStudents switchedClassroom = [''a1'']
   \<and> attendance (markAbsentStudents 4000 switchedClassroom)
     = attendance switchedClassroom
       @ [\<lparr>a_student_id = ''d4'', a_course = ''CS102'', a_status = Absent, created_at = 4000\<rparr>]"
proof -
  have day: "''d4'' \<in> presentOnDay ''CS102'' 4000 (attendance switchedClassroom)"
    unfolding presentOnDay_def switchedClassroom_fields
    by (rule CollectI,
        rule exI[of _ "\<lparr>a_student_id = ''d4'', a_course = ''CS102'', a_status = Present, created_at = 500\<rparr>"])
      simp
  have closed: "attendance (markAbsentStudents 4000 switchedClassroom)
      = attendance switchedClassroom
        @ [\<lparr>a_student_id = ''d4'', a_course = ''CS102'', a_status = Absent, created_at = 4000\<rparr>]"
    unfolding markAbsent_attendance[OF switchedClassroom_fields(4)]
    by (simp add: switchedClassroom_fields(1,2,3) dan_def)
  show ?thesis
    using day closed by (simp add: switchedClassroom_fields(1,2,3))
qed





section \<open>Overlapping firings\<close>

lemma inFlight_append: "inFlight w n (xs @ ys) = inFlight w (inFlight w n xs) ys"
proof (induction xs arbitrary: n)
  case Nil
  show ?case by simp
next
  case (Cons e es)
  show ?case by (cases e) (simp_all add: Cons.IH)
qed

lemma inFlight_replicate_ready:
  "frameReady w frame \<Longrightarrow> inFlight w n (replicate k (TimerFires frame)) = n + k"
  by (induction k arbitrary: n) simp_all

lemma startedClassroom_frameReady: "frameReady startedClassroom (frameWith ds)"
  by (simp add: frameReady_def frameWith_def startedClassroom_fields)

text \<open>
  Claim C6 as the specification states it: a firing is skipped while the previous one is
  still being processed, so at most one call is in flight. The page does otherwise: in
  the started classroom the timer fires twice before the first call has returned, and
  two calls are in flight.
\<close>

theorem two_firings_two_calls_in_flight:
  "inFlight startedClassroom 0 [TimerFires (frameWith [11]), TimerFires (frameWith [11])] = 2"
  by (simp add: startedClassroom_frameReady)

text \<open>
  Claim C6 as amended. A firing is skipped exactly when the video or the canvas element
  is missing or the video is paused, has ended or has no width. Otherwise it starts a
  call whatever number of calls is in flight: after any history of events the count
  grows by one, and k firings with no return in between leave k calls in flight.
\<close>

theorem firing_starts_a_call_whatever_is_in_flight:
  "inFlight w n (evs @ [TimerFires frame])
     = (if videoRef w \<and> canvasRef w \<and> \<not> paused frame \<and> \<not> ended frame \<and> videoWidth frame \<noteq> 0
        then Suc (inFlight w n evs) else inFlight w n evs)
   \<and> (frameReady w frame \<longrightarrow> inFlight w 0 (replicate k (TimerFires frame)) = k)"
  by (simp add: inFlight_append inFlight_replicate_ready) (simp add: frameReady_def)

text \<open>Three firings on a playing video, none returned: three calls in flight.\<close>

theorem firing_starts_a_call_whatever_is_in_flight_witness:
  "frameReady startedClassroom (frameWith [11])
   \<and> inFlight startedClassroom 0 (replicate 3 (TimerFires (frameWith [11]))) = 3
   \<and> inFlight startedClassroom 0 ([TimerFires (frameWith [11]), CallbackReturns] @ [TimerFires (frameWith [11])])
       = Suc (inFlight startedClassroom 0 [TimerFires (frameWith [11]), CallbackReturns])"
  using firing_starts_a_call_whatever_is_in_flight
      [of startedClassroom 0 "[TimerFires (frameWith [11]), CallbackReturns]" "frameWith [11]" 3]
    startedClassroom_frameReady[of "[11]"]
  by (simp add: frameReady_def)

section \<open>Building the gallery\<close>

lemma gallery_labels:
  "map label (validOnes (map (\<lambda>s. fst (describeStudent detect s)) roster))
     = map s_id (included detect roster)"
  by (induction roster)
    (simp_all add: validOnes_def included_def describeStudent_def split: detection.splits)

lemma gallery_length:
  "length (validOnes (map (\<lambda>s. fst (describeStudent detect s)) roster)) + length (excluded detect roster)
     = length roster"
  by (induction roster)
    (simp_all add: validOnes_def excluded_def describeStudent_def split: detection.splits)

lemma gallery_empty:
  "(validOnes (map (\<lambda>s. fst (describeStudent detect s)) roster) = []) = (included detect roster = [])"
  using gallery_labels[of detect roster] by (metis map_is_Nil_conv)

lemma logged_only_excluded:
  "concat (map (\<lambda>s. snd (describeStudent detect s)) roster)
     = concat (map (\<lambda>s. snd (describeStudent detect s)) (excluded detect roster))"
  by (induction roster)
    (simp_all add: excluded_def describeStudent_def split: detection.splits)

lemma excluded_console_length:
  "length (concat (map (\<lambda>s. snd (describeStudent detect s)) (excluded detect roster)))
     = length (excluded detect roster)"
  by (induction roster)
    (simp_all add: excluded_def describeStudent_def split: detection.splits)

lemma length_filter_insort:
  "length (filter P (insort_key f x xs)) = length (filter P (x # xs))"
  by (induction xs) auto

lemma length_filter_sort: "length (filter P (sort_key f xs)) = length (filter P xs)"
  by (induction xs) (simp_all add: length_filter_insort)

lemma length_excluded_sort:
  "length (excluded detect (sort_key f roster)) = length (excluded detect roster)"
  by (simp add: excluded_def length_filter_sort)

text \<open>
  Claim C7 as the specification states it: the members left out of the gallery are
  reported to the caller as an exclusion list. The page does otherwise. For the roster
  Alice, Bob, Carol, the run in which Bob's photo shows no face (Bob is excluded) and the
  run in which every photo shows a face (nobody is excluded) leave the operator with
  the same view, no error message among it; \<^verbatim>\<open>startFaceRecognition\<close> returns no value.
\<close>

theorem exclusion_is_not_reported:
  "excluded photosBobFaceless [alice, bob, carol] = [bob]
   \<and> excluded photos [alice, bob, carol] = []
   \<and> operatorView (startFaceRecognition photosBobFaceless arrival (classroom [alice, bob, carol]))
     = operatorView (startFaceRecognition photos arrival (classroom [alice, bob, carol]))
   \<and> error (startFaceRecognition photosBobFaceless arrival (classroom [alice, bob, carol])) = None"
  by (simp add: excluded_def photosBobFaceless_def alice_photo bob_photo carol_photo
      operatorView_def startFaceRecognition_def classroom_def describeStudent_def validOnes_def Let_def)
    (simp add: alice_def bob_def carol_def)

text \<open>
  Claim C7 as amended. When recognition is started on a roster that is not empty, every
  member whose photo gives no face or fails to load is left out without aborting the
  build. If at least one member has a usable photo, the gallery holds exactly the members
  with a usable photo, in roster order (so a roster of 3 with one failing photo gives a
  gallery of 2), recognition starts, no error message is set, and what the operator sees
  is what is seen when nobody is left out. If no member has a usable photo the start is
  refused with an error message. In both cases the members left out are written to the
  console only, one line each, in the order in which their photos were examined; no
  exclusion list is returned.
\<close>

theorem gallery_holds_the_members_with_a_face:
  assumes "isWebcamActive w" and "videoRef w" and "canvasRef w" and "students w \<noteq> []"
  shows "console (startFaceRecognition detect finished w)
           = console w @ concat (map (\<lambda>s. snd (describeStudent detect s))
               (excluded detect (sort_key (\<lambda>s. finished (s_photo_url s)) (students w))))
       \<and> length (console (startFaceRecognition detect finished w))
           = length (console w) + length (excluded detect (students w))
       \<and> (if included detect (students w) = []
          then error (startFaceRecognition detect finished w)
                 = Some ''Could not create face descriptors from student photos. Please check the photos.''
               \<and> \<not> isCapturing (startFaceRecognition detect finished w)
               \<and> intervalRef (startFaceRecognition detect finished w) = intervalRef w
          else (\<exists>cl. intervalRef (startFaceRecognition detect finished w) = Some cl
                  \<and> map label (labeledDescriptors (cl_faceMatcher cl))
                      = map s_id (included detect (students w))
                  \<and> length (labeledDescriptors (cl_faceMatcher cl))
                      + length (excluded detect (students w)) = length (students w))
               \<and> isCapturing (startFaceRecognition detect finished w)
               \<and> error (startFaceRecognition detect finished w) = None
               \<and> operatorView (startFaceRecognition detect finished w)
                   = operatorView (w\<lparr>isCapturing := True, error := None\<rparr>))"
proof -
  let ?ordered = "sort_key (\<lambda>s. finished (s_photo_url s)) (students w)"
  have logged: "concat (map (\<lambda>s. snd (describeStudent detect s)) ?ordered)
      = concat (map (\<lambda>s. snd (describeStudent detect s)) (excluded detect ?ordered))"
    by (rule logged_only_excluded)
  have con: "console (startFaceRecognition detect finished w)
      = console w @ concat (map (\<lambda>s. snd (describeStudent detect s)) (excluded detect ?ordered))"
    using assms logged by (simp add: startFaceRecognition_def Let_def)
  have len: "length (console (startFaceRecognition detect finished w))
      = length (console w) + length (excluded detect (students w))"
    by (simp add: con excluded_console_length length_excluded_sort)
  show ?thesis
  proof (cases "included detect (students w) = []")
    case True
    then have "validOnes (map (\<lambda>s. fst (describeStudent detect s)) (students w)) = []"
      by (simp add: gallery_empty)
    then have "error (startFaceRecognition detect finished w)
                 = Some ''Could not create face descriptors from student photos. Please check the photos.''
               \<and> \<not> isCapturing (startFaceRecognition detect finished w)
               \<and> intervalRef (startFaceRecognition detect finished w) = intervalRef w"
      using assms by (simp add: startFaceRecognition_def Let_def)
    with True con len show ?thesis by simp
  next
    case False
    then have v: "validOnes (map (\<lambda>s. fst (describeStudent detect s)) (students w)) \<noteq> []"
      by (simp add: gallery_empty)
    have "(\<exists>cl. intervalRef (startFaceRecognition detect finished w) = Some cl
                  \<and> map label (labeledDescriptors (cl_faceMatcher cl))
                      = map s_id (included detect (students w))
                  \<and> length (labeledDescriptors (cl_faceMatcher cl))
                      + length (excluded detect (students w)) = length (students w))
               \<and> isCapturing (startFaceRecognition detect finished w)
               \<and> error (startFaceRecognition detect finished w) = None
               \<and> operatorView (startFaceRecognition detect finished w)
                   = operatorView (w\<lparr>isCapturing := True, error := None\<rparr>)"
      using assms v
      by (simp add: startFaceRecognition_def Let_def gallery_labels gallery_length operatorView_def)
    with False con len show ?thesis by simp
  qed
qed

text \<open>
  Alice, Bob and Carol, the camera on. With no face in Bob's photo the gallery is Alice
  and Carol and the console has one line, about Bob. With a face in Alice's photo only,
  the console has Carol's line before Bob's, since Carol's photo was examined first.
\<close>

theorem gallery_holds_the_members_with_a_face_witness:
  "included photosBobFaceless [alice, bob, carol] = [alice, carol]
   \<and> (\<exists>cl. intervalRef (startFaceRecognition photosBobFaceless arrival (classroom [alice, bob, carol])) = Some cl
        \<and> map label (labeledDescriptors (cl_faceMatcher cl)) = [''a1'', ''c3'']
        \<and> length (labeledDescriptors (cl_faceMatcher cl)) = 2)
   \<and> console (startFaceRecognition photosBobFaceless arrival (classroom [alice, bob, carol]))
       = [''No face detected in the reference image for Bob'']
   \<and> error (startFaceRecognition photosBobFaceless arrival (classroom [alice, bob, carol])) = None
   \<and> console (startFaceRecognition photosOnlyAlice arrival (classroom [alice, bob, carol]))
       = [''No face detected in the reference image for Carol'',
          ''No face detected in the reference image for Bob'']"
proof -
  let ?w = "classroom [alice, bob, carol]"
  have f: "isWebcamActive ?w" "videoRef ?w" "canvasRef ?w" "students ?w \<noteq> []"
    by (simp_all add: classroom_def)
  have g: "students ?w = [alice, bob, carol]" "console ?w = []"
    by (simp_all add: classroom_def)
  have i: "included photosBobFaceless [alice, bob, carol] = [alice, carol]"
    by (simp add: included_def photosBobFaceless_def alice_photo carol_photo)
      (simp add: alice_def bob_def carol_def)
  have e: "excluded photosBobFaceless [alice, bob, carol] = [bob]"
    by (simp add: excluded_def photosBobFaceless_def alice_photo carol_photo)
      (simp add: alice_def bob_def carol_def)
  have o: "sort_key (\<lambda>s. arrival (s_photo_url s)) [alice, bob, carol] = [carol, bob, alice]"
    by (simp add: arrival_def alice_def bob_def carol_def)
  have e1: "excluded photosBobFaceless [carol, bob, alice] = [bob]"
    by (simp add: excluded_def photosBobFaceless_def alice_photo carol_photo)
      (simp add: alice_def bob_def carol_def)
  have e2: "excluded photosOnlyAlice [carol, bob, alice] = [carol, bob]"
    by (simp add: excluded_def photosOnlyAlice_def alice_def bob_def carol_def)
  have b: "snd (describeStudent photosBobFaceless bob) = [''No face detected in the reference image for Bob'']"
    "snd (describeStudent photosOnlyAlice bob) = [''No face detected in the reference image for Bob'']"
    "snd (describeStudent photosOnlyAlice carol) = [''No face detected in the reference image for Carol'']"
    by (simp_all add: describeStudent_def photosBobFaceless_def photosOnlyAlice_def bob_def carol_def)
  have l: "s_id alice = ''a1''" "s_id carol = ''c3''"
    by (simp_all add: alice_def carol_def)
  from gallery_holds_the_members_with_a_face[OF f, of photosBobFaceless arrival]
    gallery_holds_the_members_with_a_face[OF f, of photosOnlyAlice arrival]
  show ?thesis
    unfolding g o i e e1 e2 by (auto simp: b l)
qed

section \<open>Starting recognition\<close>



section \<open>Registration and the uploaded photo\<close>

lemma submitCatch_fields:
  "r_removeCalls (submitCatch msg r) = r_removeCalls r"
  "r_storage (submitCatch msg r) = r_storage r"
  "r_students (submitCatch msg r) = r_students r"
  "r_uncaught (submitCatch msg r) = Some ''ReferenceError: filePath is not defined''"
  "r_error (submitCatch msg r) = Some (''Failed to register student: '' @ msg)"
  by (simp_all add: submitCatch_def catchScope_def Let_def)

text \<open>
  Claim C8. The specification says that when the descriptor extractor finds no face
  after the upload has succeeded, the photo store's delete is called with the stored
  reference and no student record is created. The page creates no student record, but it
  does not delete the photo: the \<^verbatim>\<open>catch\<close> block reads \<^verbatim>\<open>filePath\<close>, a \<^verbatim>\<open>const\<close> of the
  \<^verbatim>\<open>try\<close> block that is not in scope there, so it stops with a \<^verbatim>\<open>ReferenceError\<close>
  before it reaches \<^verbatim>\<open>remove\<close>. For a complete form, the models loaded, the upload
  succeeding and no face found: the uploaded object stays in the bucket, \<^verbatim>\<open>remove\<close> is
  not called, the table of students is unchanged.
\<close>

theorem failed_extraction_keeps_the_uploaded_photo:
  assumes "r_photo r = Some photoName" and "r_name r \<noteq> []" and "r_studentId r \<noteq> []"
    and "r_course r \<noteq> []" and "\<not> r_isModelLoading r"
    and "e_uploadError env = None" and "e_face env = NoDetection"
  shows "r_storage (handleSubmit env r)
           = r_storage r @ [''students/'' @ e_dateNow env @ ''.'' @ last (splitOn CHR ''.'' photoName)]
       \<and> r_removeCalls (handleSubmit env r) = r_removeCalls r
       \<and> r_students (handleSubmit env r) = r_students r
       \<and> r_uncaught (handleSubmit env r) = Some ''ReferenceError: filePath is not defined''
       \<and> r_error (handleSubmit env r) = Some ''Failed to register student: No face detected in the image''"
  using assms
  by (simp add: handleSubmit_def submitTry_def computeFaceDescriptor_def Let_def submitCatch_fields)

text \<open>
  Alice's form with the photo \<^verbatim>\<open>alice.photo.jpg\<close>, uploaded at 1700000000000 into an
  empty bucket; no face is found in it.
\<close>

theorem failed_extraction_keeps_the_uploaded_photo_witness:
  "r_storage (handleSubmit
      \<lparr>e_dateNow = ''1700000000000'', e_uploadError = None, e_publicPrefix = ''https://cdn/images/'',
       e_face = NoDetection :: nat detection, e_insertError = None\<rparr>
      \<lparr>r_name = ''Alice'', r_studentId = ''S001'', r_course = ''CS101'', r_photo = Some ''alice.photo.jpg'',
       r_searchTerm = [],
       r_isModelLoading = False, r_isSaving = False, r_error = None, r_successMessage = None,
       r_storage = [], r_students = [], r_removeCalls = [], r_console = [], r_uncaught = None\<rparr>)
     = [''students/1700000000000.jpg'']
   \<and> r_removeCalls (handleSubmit
      \<lparr>e_dateNow = ''1700000000000'', e_uploadError = None, e_publicPrefix = ''https://cdn/images/'',
       e_face = NoDetection :: nat detection, e_insertError = None\<rparr>
      \<lparr>r_name = ''Alice'', r_studentId = ''S001'', r_course = ''CS101'', r_photo = Some ''alice.photo.jpg'',
       r_searchTerm = [],
       r_isModelLoading = False, r_isSaving = False, r_error = None, r_successMessage = None,
       r_storage = [], r_students = [], r_removeCalls = [], r_console = [], r_uncaught = None\<rparr>)
     = []
   \<and> r_students (handleSubmit
      \<lparr>e_dateNow = ''1700000000000'', e_uploadError = None, e_publicPrefix = ''https://cdn/images/'',
       e_face = NoDetection :: nat detection, e_insertError = None\<rparr>
      \<lparr>r_name = ''Alice'', r_studentId = ''S001'', r_course = ''CS101'', r_photo = Some ''alice.photo.jpg'',
       r_searchTerm = [],
       r_isModelLoading = False, r_isSaving = False, r_error = None, r_successMessage = None,
       r_storage = [], r_students = [], r_removeCalls = [], r_console = [], r_uncaught = None\<rparr>)
     = []"
  using failed_extraction_keeps_the_uploaded_photo
    [of "\<lparr>r_name = ''Alice'', r_studentId = ''S001'', r_course = ''CS101'', r_photo = Some ''alice.photo.jpg'',
       r_searchTerm = [],
       r_isModelLoading = False, r_isSaving = False, r_error = None, r_successMessage = None,
       r_storage = [], r_students = [], r_removeCalls = [], r_console = [], r_uncaught = None\<rparr>"
      "''alice.photo.jpg''"
      "\<lparr>e_dateNow = ''1700000000000'', e_uploadError = None, e_publicPrefix = ''https://cdn/images/'',
       e_face = NoDetection :: nat detection, e_insertError = None\<rparr>"]
  by simp

end
